theory Spec2Isabelle
  imports Complex_Main "HOL-Library.Multiset"
begin

section \<open>Strings\<close>

text \<open>
  Strings are byte strings (\<open>char list\<close>).  Go's \<open>len\<close> and JavaScript's \<open>.length\<close> are both
  modelled by \<open>length\<close>; they agree on ASCII text.  \<open>strings.TrimSpace\<close> (Go) and
  \<open>String.prototype.trim\<close> (JavaScript) both strip the six ASCII white-space characters
  below from both ends; the further Unicode white space they know is outside this model.
\<close>

definition isSpace :: "char \<Rightarrow> bool" where
  "isSpace c = (c = CHR 0x09 \<or> c = CHR 0x0A \<or> c = CHR 0x0B \<or> c = CHR 0x0C \<or> c = CHR 0x0D \<or> c = CHR '' '')"

definition TrimSpace :: "string \<Rightarrow> string" where
  "TrimSpace s = rev (dropWhile isSpace (rev (dropWhile isSpace s)))"

abbreviation trim :: "string \<Rightarrow> string" where
  "trim \<equiv> TrimSpace"

definition toUpperChar :: "char \<Rightarrow> char" where
  "toUpperChar c = (if 97 \<le> (of_char c :: nat) \<and> (of_char c :: nat) \<le> 122
                    then char_of ((of_char c :: nat) - 32) else c)"

definition toLowerChar :: "char \<Rightarrow> char" where
  "toLowerChar c = (if 65 \<le> (of_char c :: nat) \<and> (of_char c :: nat) \<le> 90
                    then char_of ((of_char c :: nat) + 32) else c)"

definition ToUpper :: "string \<Rightarrow> string" where
  "ToUpper s = map toUpperChar s"

fun string_of_nat :: "nat \<Rightarrow> string" where
  "string_of_nat n =
     (if n < 10 then [char_of (48 + n)]
      else string_of_nat (n div 10) @ [char_of (48 + n mod 10)])"

definition string_of_int :: "int \<Rightarrow> string" where
  "string_of_int i = (if i < 0 then CHR ''-'' # string_of_nat (nat (- i)) else string_of_nat (nat i))"

section \<open>The SQLite table and the statements the repositories issue\<close>

text \<open>
  Both back ends keep one table, created by the same migration:
  \<^verbatim>\<open>id INTEGER PRIMARY KEY AUTOINCREMENT, title TEXT NOT NULL, description TEXT,
  completed BOOLEAN DEFAULT 0, created_at/updated_at DATETIME DEFAULT CURRENT_TIMESTAMP\<close>
  and a trigger that sets \<open>updated_at = CURRENT_TIMESTAMP\<close> after every UPDATE of a row.
  The engine is not part of the repository; the fragment of SQL that the two repositories
  send is given its SQLite meaning here.  \<open>CURRENT_TIMESTAMP\<close> is a reading of a clock
  with a resolution of one second; it is an argument \<open>now\<close> (seconds) of every statement
  that uses it.  Storage failures of the engine are not modelled.
\<close>

record todo =
  ID :: int
  Title :: string
  Description :: "string option"
  Completed :: bool
  CreatedAt :: nat
  UpdatedAt :: nat

text \<open>\<open>rows\<close> in rowid order; \<open>seq\<close> is the \<open>sqlite_sequence\<close> entry of AUTOINCREMENT: the
  largest rowid ever handed out.\<close>

record database =
  rows :: "todo list"
  seq :: int

definition empty_db :: database where
  "empty_db = \<lparr>rows = [], seq = 0\<rparr>"

subsection \<open>LIKE\<close>

text \<open>SQLite's LIKE without ESCAPE: \<open>%\<close> matches any sequence of characters, \<open>_\<close> any
  single character, every other character itself, ASCII letters regardless of case.\<close>

fun like :: "string \<Rightarrow> string \<Rightarrow> bool" where
  "like [] [] = True"
| "like [] (c # ts) = False"
| "like (p # ps) [] = (p = CHR ''%'' \<and> like ps [])"
| "like (p # ps) (c # ts) =
     (if p = CHR ''%'' then like ps (c # ts) \<or> like (p # ps) ts
      else (p = CHR ''_'' \<or> toLowerChar p = toLowerChar c) \<and> like ps ts)"

subsection \<open>WHERE\<close>

datatype cond =
    TitleOrDescriptionLike string string
  | CompletedEq bool

text \<open>\<open>title LIKE ? OR description LIKE ?\<close>: a NULL description makes the second disjunct
  NULL, and a row is kept only when the whole condition is true.\<close>

fun eval_cond :: "cond \<Rightarrow> todo \<Rightarrow> bool" where
  "eval_cond (TitleOrDescriptionLike p1 p2) r =
     (like p1 (Title r) \<or> (case Description r of None \<Rightarrow> False | Some d \<Rightarrow> like p2 d))"
| "eval_cond (CompletedEq b) r = (Completed r = b)"

definition eval_where :: "cond list \<Rightarrow> todo \<Rightarrow> bool" where
  "eval_where conds r = list_all (\<lambda>c. eval_cond c r) conds"

subsection \<open>ORDER BY, LIMIT, OFFSET\<close>

datatype column = ColId | ColTitle | ColCompleted | ColCreatedAt | ColUpdatedAt

definition column_of :: "string \<Rightarrow> column option" where
  "column_of s =
     (if s = ''id'' then Some ColId
      else if s = ''title'' then Some ColTitle
      else if s = ''completed'' then Some ColCompleted
      else if s = ''created_at'' then Some ColCreatedAt
      else if s = ''updated_at'' then Some ColUpdatedAt
      else None)"

text \<open>\<open>True\<close> is DESC.\<close>

definition direction_of :: "string \<Rightarrow> bool option" where
  "direction_of s = (if s = ''ASC'' then Some False else if s = ''DESC'' then Some True else None)"

text \<open>The BINARY collation: bytes compared in order, a proper prefix first.\<close>

fun str_le :: "string \<Rightarrow> string \<Rightarrow> bool" where
  "str_le [] t = True"
| "str_le (a # as) [] = False"
| "str_le (a # as) (b # bs) = ((of_char a :: nat) < of_char b \<or> (a = b \<and> str_le as bs))"

fun col_le :: "column \<Rightarrow> todo \<Rightarrow> todo \<Rightarrow> bool" where
  "col_le ColId a b = (ID a \<le> ID b)"
| "col_le ColTitle a b = str_le (Title a) (Title b)"
| "col_le ColCompleted a b = (Completed a \<le> Completed b)"
| "col_le ColCreatedAt a b = (CreatedAt a \<le> CreatedAt b)"
| "col_le ColUpdatedAt a b = (UpdatedAt a \<le> UpdatedAt b)"

definition order_le :: "column \<Rightarrow> bool \<Rightarrow> todo \<Rightarrow> todo \<Rightarrow> bool" where
  "order_le col desc a b = (if desc then col_le col b a else col_le col a b)"

fun insort_by :: "('a \<Rightarrow> 'a \<Rightarrow> bool) \<Rightarrow> 'a \<Rightarrow> 'a list \<Rightarrow> 'a list" where
  "insort_by le x [] = [x]"
| "insort_by le x (y # ys) = (if le x y then x # y # ys else y # insort_by le x ys)"

text \<open>SQLite leaves the order of rows with equal keys open; the model keeps them in rowid
  order.  No theorem below depends on that choice.\<close>

definition order_by :: "column \<Rightarrow> bool \<Rightarrow> todo list \<Rightarrow> todo list" where
  "order_by col desc xs = foldr (insort_by (order_le col desc)) xs []"

text \<open>A negative OFFSET counts as 0 and a negative LIMIT as no limit.\<close>

definition sql_limit :: "int \<Rightarrow> int \<Rightarrow> 'a list \<Rightarrow> 'a list" where
  "sql_limit lmt ofs xs =
     (let ys = drop (nat ofs) xs in if lmt < 0 then ys else take (nat lmt) ys)"

subsection \<open>Statements\<close>

text \<open>\<open>SELECT COUNT(*) FROM todos WHERE ...\<close>\<close>

definition sql_count :: "cond list \<Rightarrow> database \<Rightarrow> int" where
  "sql_count conds db = int (length (filter (eval_where conds) (rows db)))"

text \<open>\<open>SELECT ... FROM todos WHERE ... ORDER BY <sort> <order> LIMIT <lmt> OFFSET <ofs>\<close>;
  \<open>None\<close> when the interpolated sort column or direction is not one the statement can
  name.\<close>

definition sql_select ::
  "cond list \<Rightarrow> string \<Rightarrow> string \<Rightarrow> int \<Rightarrow> int \<Rightarrow> database \<Rightarrow> todo list option" where
  "sql_select conds sort_s order_s lmt ofs db =
     (case column_of sort_s of
        None \<Rightarrow> None
      | Some col \<Rightarrow>
          (case direction_of order_s of
             None \<Rightarrow> None
           | Some desc \<Rightarrow>
               Some (sql_limit lmt ofs (order_by col desc (filter (eval_where conds) (rows db))))))"

text \<open>\<open>SELECT ... FROM todos WHERE id = ?\<close>\<close>

definition sql_select_by_id :: "int \<Rightarrow> database \<Rightarrow> todo option" where
  "sql_select_by_id i db = find (\<lambda>r. ID r = i) (rows db)"

text \<open>\<open>INSERT INTO todos (title, description, completed) VALUES (?, ?, ?)\<close>: the new rowid
  is one more than the largest rowid that ever existed; both timestamps take their default.
  The result is \<open>lastID\<close> and the new table.\<close>

definition next_rowid :: "database \<Rightarrow> int" where
  "next_rowid db = foldr max (map ID (rows db)) (seq db) + 1"

definition sql_insert :: "nat \<Rightarrow> string \<Rightarrow> string option \<Rightarrow> bool \<Rightarrow> database \<Rightarrow> int \<times> database" where
  "sql_insert now t d c db =
     (let i = next_rowid db
      in (i, \<lparr>rows = rows db @ [\<lparr>ID = i, Title = t, Description = d, Completed = c,
                                 CreatedAt = now, UpdatedAt = now\<rparr>],
              seq = i\<rparr>))"

text \<open>The SET list of both repositories' UPDATE: each column is there or not (the Go map has
  the key or not, the JavaScript object has the property or not); a description that is
  there may be NULL.\<close>

record updates =
  upd_title :: "string option"
  upd_description :: "string option option"
  upd_completed :: "bool option"

definition no_updates :: updates where
  "no_updates = \<lparr>upd_title = None, upd_description = None, upd_completed = None\<rparr>"

definition apply_set :: "updates \<Rightarrow> nat \<Rightarrow> todo \<Rightarrow> todo" where
  "apply_set u now r =
     r\<lparr>Title := (case upd_title u of None \<Rightarrow> Title r | Some t \<Rightarrow> t),
       Description := (case upd_description u of None \<Rightarrow> Description r | Some d \<Rightarrow> d),
       Completed := (case upd_completed u of None \<Rightarrow> Completed r | Some c \<Rightarrow> c),
       UpdatedAt := now\<rparr>"

text \<open>The trigger \<open>update_todos_updated_at\<close>.\<close>

definition trigger_updated_at :: "nat \<Rightarrow> todo \<Rightarrow> todo" where
  "trigger_updated_at now r = r\<lparr>UpdatedAt := now\<rparr>"

text \<open>\<open>UPDATE todos SET ..., updated_at = CURRENT_TIMESTAMP WHERE id = ?\<close>; the result is
  the number of rows changed and the new table.\<close>

definition sql_update :: "updates \<Rightarrow> nat \<Rightarrow> int \<Rightarrow> database \<Rightarrow> nat \<times> database" where
  "sql_update u now i db =
     (length (filter (\<lambda>r. ID r = i) (rows db)),
      db\<lparr>rows := map (\<lambda>r. if ID r = i then trigger_updated_at now (apply_set u now r) else r)
                     (rows db)\<rparr>)"

text \<open>\<open>DELETE FROM todos WHERE id = ?\<close> and \<open>DELETE FROM todos\<close>, with the number of rows
  removed.  Neither touches \<open>sqlite_sequence\<close>.\<close>

definition sql_delete :: "int \<Rightarrow> database \<Rightarrow> nat \<times> database" where
  "sql_delete i db =
     (length (filter (\<lambda>r. ID r = i) (rows db)), db\<lparr>rows := filter (\<lambda>r. ID r \<noteq> i) (rows db)\<rparr>)"

definition sql_delete_all :: "database \<Rightarrow> nat \<times> database" where
  "sql_delete_all db = (length (rows db), db\<lparr>rows := []\<rparr>)"

section \<open>Errors\<close>

text \<open>A Go \<open>error\<close> built by \<open>fmt.Errorf\<close> is its message; the JavaScript service throws
  objects of the classes \<open>ValidationError\<close>, \<open>NotFoundError\<close> and \<open>DatabaseError\<close>.  A Go
  nil-pointer dereference is \<open>Panic\<close>, reading a property of \<open>undefined\<close> in JavaScript
  is \<open>TypeError\<close>.\<close>

datatype error =
    Errorf string
  | Panic
  | TypeError
  | ValidationError string
  | NotFoundError string
  | DatabaseError string

fun Error :: "error \<Rightarrow> string" where
  "Error (Errorf m) = m"
| "Error Panic = ''runtime error: invalid memory address or nil pointer dereference''"
| "Error TypeError = ''Cannot read properties of undefined''"
| "Error (ValidationError m) = m"
| "Error (NotFoundError m) = m"
| "Error (DatabaseError m) = m"

section \<open>The Go back end\<close>

subsection \<open>models\<close>

record QueryParams =
  qPage :: int
  qPerPage :: int
  qSort :: string
  qOrder :: string
  qSearch :: string
  qCompleted :: "bool option"

record PaginatedResponse =
  Data :: "todo list"
  Total :: int
  Page :: int
  PerPage :: int
  TotalPages :: int

record CreateTodoRequest =
  cTitle :: string
  cDescription :: "string option"
  cCompleted :: bool

record UpdateTodoRequest =
  uTitle :: "string option"
  uDescription :: "string option"
  uCompleted :: "bool option"

record stats =
  total_todos :: int
  completed_todos :: int
  pending_todos :: int

text \<open>Go's \<open>int\<close> is 64 bits wide here: a product wraps around.  Go's \<open>/\<close> on integers
  truncates towards zero.\<close>

definition int64 :: "int \<Rightarrow> int" where
  "int64 x = (x + 2 ^ 63) mod 2 ^ 64 - 2 ^ 63"

definition quot :: "int \<Rightarrow> int \<Rightarrow> int" where
  "quot a b = sgn a * sgn b * (\<bar>a\<bar> div \<bar>b\<bar>)"

subsection \<open>repository/todo\_repository.go\<close>

definition GetAll :: "QueryParams \<Rightarrow> database \<Rightarrow> error + (todo list \<times> int)" where
  "GetAll params db =
     (let searchTerm = ''%'' @ qSearch params @ ''%'';
          args1 = (if qSearch params \<noteq> [] then [TitleOrDescriptionLike searchTerm searchTerm] else []);
          args = args1 @ (case qCompleted params of None \<Rightarrow> [] | Some c \<Rightarrow> [CompletedEq c]);
          totalN = sql_count args db;
          offset = int64 ((qPage params - 1) * qPerPage params)
      in case sql_select args (qSort params) (ToUpper (qOrder params)) (qPerPage params) offset db of
           None \<Rightarrow> Inl (Errorf ''failed to query todos: SQL logic error'')
         | Some todos \<Rightarrow> Inr (todos, totalN))"

definition GetByID :: "int \<Rightarrow> database \<Rightarrow> todo option" where
  "GetByID i db = sql_select_by_id i db"

definition Create :: "nat \<Rightarrow> todo \<Rightarrow> database \<Rightarrow> error + (todo \<times> database)" where
  "Create now t db =
     (case sql_insert now (Title t) (Description t) (Completed t) db of
        (i, db') \<Rightarrow>
          (case GetByID i db' of
             None \<Rightarrow> Inl Panic
           | Some createdTodo \<Rightarrow> Inr (createdTodo, db')))"

definition Update :: "nat \<Rightarrow> int \<Rightarrow> updates \<Rightarrow> database \<Rightarrow> todo option \<times> database" where
  "Update now i u db =
     (if u = no_updates then (GetByID i db, db)
      else (case sql_update u now i db of
              (rowsAffected, db') \<Rightarrow>
                if rowsAffected = 0 then (None, db') else (GetByID i db', db')))"

definition Delete :: "int \<Rightarrow> database \<Rightarrow> error + database" where
  "Delete i db =
     (case sql_delete i db of
        (rowsAffected, db') \<Rightarrow>
          if rowsAffected = 0
          then Inl (Errorf (''todo with id '' @ string_of_int i @ '' not found''))
          else Inr db')"

definition DeleteAll :: "database \<Rightarrow> error + database" where
  "DeleteAll db =
     (case sql_delete_all db of
        (rowsAffected, db') \<Rightarrow>
          if rowsAffected = 0 then Inl (Errorf ''no todos found to delete'') else Inr db')"

definition Exists :: "int \<Rightarrow> database \<Rightarrow> bool" where
  "Exists i db = list_ex (\<lambda>r. ID r = i) (rows db)"

subsection \<open>services/todo\_service.go\<close>

fun contains :: "string list \<Rightarrow> string \<Rightarrow> bool" where
  "contains [] item = False"
| "contains (s # slice) item = (if s = item then True else contains slice item)"

definition validSortFields :: "string list" where
  "validSortFields = [''id'', ''title'', ''completed'', ''created_at'', ''updated_at'']"

text \<open>The four assignments that clamp and default the parameters, in the order of the
  source.\<close>

definition setDefaults :: "QueryParams \<Rightarrow> QueryParams" where
  "setDefaults params0 =
     (let params1 = (if qPage params0 < 1 then params0\<lparr>qPage := 1\<rparr> else params0);
          params2 = (if qPerPage params1 < 1 \<or> qPerPage params1 > 100
                     then params1\<lparr>qPerPage := 20\<rparr> else params1);
          params3 = (if qSort params2 = [] then params2\<lparr>qSort := ''created_at''\<rparr> else params2)
      in (if qOrder params3 = [] then params3\<lparr>qOrder := ''desc''\<rparr> else params3))"

definition GetTodos :: "QueryParams \<Rightarrow> database \<Rightarrow> error + PaginatedResponse" where
  "GetTodos params0 db =
     (let params = setDefaults params0
      in if \<not> contains validSortFields (qSort params)
         then Inl (Errorf (''invalid sort field: '' @ qSort params))
         else if qOrder params \<noteq> ''asc'' \<and> qOrder params \<noteq> ''desc''
         then Inl (Errorf (''invalid order: '' @ qOrder params))
         else (case GetAll params db of
                 Inl err \<Rightarrow> Inl (Errorf (''failed to get todos: '' @ Error err))
               | Inr (todos, totalN) \<Rightarrow>
                   Inr \<lparr>Data = todos, Total = totalN, Page = qPage params,
                        PerPage = qPerPage params,
                        TotalPages = quot (totalN + qPerPage params - 1) (qPerPage params)\<rparr>))"

definition GetTodoByID :: "int \<Rightarrow> database \<Rightarrow> error + todo option" where
  "GetTodoByID i db =
     (if i \<le> 0 then Inl (Errorf (''invalid todo ID: '' @ string_of_int i))
      else Inr (GetByID i db))"

definition validateCreateRequest :: "CreateTodoRequest \<Rightarrow> error option" where
  "validateCreateRequest req =
     (if TrimSpace (cTitle req) = [] then Some (Errorf ''title is required'')
      else if length (cTitle req) > 255 then Some (Errorf ''title cannot exceed 255 characters'')
      else if (case cDescription req of None \<Rightarrow> False | Some d \<Rightarrow> length d > 1000)
      then Some (Errorf ''description cannot exceed 1000 characters'')
      else None)"

definition validateUpdateRequest :: "UpdateTodoRequest \<Rightarrow> error option" where
  "validateUpdateRequest req =
     (if (case uTitle req of None \<Rightarrow> False | Some t \<Rightarrow> TrimSpace t = [])
      then Some (Errorf ''title cannot be empty'')
      else if (case uTitle req of None \<Rightarrow> False | Some t \<Rightarrow> length t > 255)
      then Some (Errorf ''title cannot exceed 255 characters'')
      else if (case uDescription req of None \<Rightarrow> False | Some d \<Rightarrow> length d > 1000)
      then Some (Errorf ''description cannot exceed 1000 characters'')
      else None)"

text \<open>\<open>trimmed == ""\<close> turns the description into nil, on create and on update.\<close>

definition trimDescription :: "string \<Rightarrow> string option" where
  "trimDescription d = (let trimmed = TrimSpace d in if trimmed = [] then None else Some trimmed)"

definition CreateTodo :: "nat \<Rightarrow> CreateTodoRequest \<Rightarrow> database \<Rightarrow> error + (todo \<times> database)" where
  "CreateTodo now req db =
     (case validateCreateRequest req of
        Some err \<Rightarrow> Inl err
      | None \<Rightarrow>
          (let t = \<lparr>ID = 0, Title = TrimSpace (cTitle req),
                    Description = (case cDescription req of None \<Rightarrow> None | Some d \<Rightarrow> trimDescription d),
                    Completed = cCompleted req, CreatedAt = now, UpdatedAt = now\<rparr>
           in case Create now t db of
                Inl err \<Rightarrow> Inl (Errorf (''failed to create todo: '' @ Error err))
              | Inr res \<Rightarrow> Inr res))"

definition buildUpdates :: "UpdateTodoRequest \<Rightarrow> updates" where
  "buildUpdates req =
     \<lparr>upd_title = (case uTitle req of None \<Rightarrow> None | Some t \<Rightarrow> Some (TrimSpace t)),
      upd_description = (case uDescription req of None \<Rightarrow> None | Some d \<Rightarrow> Some (trimDescription d)),
      upd_completed = uCompleted req\<rparr>"

definition UpdateTodo ::
  "nat \<Rightarrow> int \<Rightarrow> UpdateTodoRequest \<Rightarrow> database \<Rightarrow> error + (todo option \<times> database)" where
  "UpdateTodo now i req db =
     (if i \<le> 0 then Inl (Errorf (''invalid todo ID: '' @ string_of_int i))
      else (case validateUpdateRequest req of
              Some err \<Rightarrow> Inl err
            | None \<Rightarrow>
                if \<not> Exists i db then Inr (None, db)
                else Inr (Update now i (buildUpdates req) db)))"

definition DeleteTodo :: "int \<Rightarrow> database \<Rightarrow> error + database" where
  "DeleteTodo i db =
     (if i \<le> 0 then Inl (Errorf (''invalid todo ID: '' @ string_of_int i))
      else if \<not> Exists i db then Inl (Errorf (''todo with id '' @ string_of_int i @ '' not found''))
      else (case Delete i db of
              Inl err \<Rightarrow> Inl (Errorf (''failed to delete todo: '' @ Error err))
            | Inr db' \<Rightarrow> Inr db'))"

definition DeleteAllTodos :: "database \<Rightarrow> error + database" where
  "DeleteAllTodos db =
     (case DeleteAll db of
        Inl err \<Rightarrow> Inl (Errorf (''failed to delete all todos: '' @ Error err))
      | Inr db' \<Rightarrow> Inr db')"

text \<open>The loop of \<open>GetTodoStats\<close> over the rows that \<open>GetTodos\<close> returned.\<close>

fun countTodos :: "todo list \<Rightarrow> stats \<Rightarrow> stats" where
  "countTodos [] st = st"
| "countTodos (t # todos) st =
     countTodos todos
       (if Completed t then st\<lparr>completed_todos := completed_todos st + 1\<rparr>
        else st\<lparr>pending_todos := pending_todos st + 1\<rparr>)"

definition GetTodoStats :: "database \<Rightarrow> error + stats" where
  "GetTodoStats db =
     (let params = \<lparr>qPage = 1, qPerPage = 1000, qSort = ''created_at'', qOrder = ''desc'',
                    qSearch = [], qCompleted = None\<rparr>
      in case GetTodos params db of
           Inl err \<Rightarrow> Inl err
         | Inr response \<Rightarrow>
             Inr (countTodos (Data response)
                    \<lparr>total_todos = Total response, completed_todos = 0, pending_todos = 0\<rparr>))"

section \<open>The Node.js back end\<close>

text \<open>JavaScript values are modelled at the types the schemas give them: a number is an
  integer (exact in a double below \<open>2^53\<close>), a property that may be missing is an
  \<open>option\<close>, and a description that may be there, \<open>null\<close> or a string is an
  \<open>option\<close> of an \<open>option\<close>.\<close>

record options =
  o_page :: "int option"
  o_per_page :: "int option"
  o_sort :: "string option"
  o_order :: "string option"
  o_search :: "string option"
  o_completed :: "bool option"



record deleteAllResult =
  success :: "bool option"
  deletedCount :: nat
  previousCount :: "nat option"

text \<open>\<open>Math.ceil(total / per_page)\<close> for a divisor that is not zero.\<close>

definition ceil_div :: "int \<Rightarrow> int \<Rightarrow> int" where
  "ceil_div a b = - ((- a) div b)"

subsection \<open>repositories/TodoRepository.js\<close>

definition findAll :: "options \<Rightarrow> database \<Rightarrow> error + PaginatedResponse" where
  "findAll opts db =
     (let page = (case o_page opts of None \<Rightarrow> 1 | Some p \<Rightarrow> p);
          per_page = (case o_per_page opts of None \<Rightarrow> 20 | Some p \<Rightarrow> p);
          sort_s = (case o_sort opts of None \<Rightarrow> ''created_at'' | Some s \<Rightarrow> s);
          order_s = (case o_order opts of None \<Rightarrow> ''desc'' | Some s \<Rightarrow> s);
          params1 = (case o_search opts of
                       None \<Rightarrow> []
                     | Some search_s \<Rightarrow>
                         if search_s = [] then []
                         else [TitleOrDescriptionLike (''%'' @ search_s @ ''%'') (''%'' @ search_s @ ''%'')]);
          params = params1 @ (case o_completed opts of None \<Rightarrow> [] | Some c \<Rightarrow> [CompletedEq c]);
          totalN = sql_count params db;
          offset = (page - 1) * per_page
      in case sql_select params sort_s (ToUpper order_s) per_page offset db of
           None \<Rightarrow> Inl (DatabaseError ''Failed to retrieve todos'')
         | Some todos \<Rightarrow>
             Inr \<lparr>Data = todos, Total = totalN, Page = page, PerPage = per_page,
                  TotalPages = ceil_div totalN per_page\<rparr>)"

definition findById :: "int \<Rightarrow> database \<Rightarrow> todo option" where
  "findById i db = sql_select_by_id i db"

text \<open>\<open>Todo.isValid\<close> on the object that \<open>create\<close> builds from its argument.\<close>

definition isValid :: "string \<Rightarrow> string option \<Rightarrow> bool" where
  "isValid t d =
     (length (trim t) > 0 \<and> length t \<le> 255 \<and>
      (case d of None \<Rightarrow> True | Some s \<Rightarrow> length s \<le> 1000))"

definition create ::
  "nat \<Rightarrow> string \<Rightarrow> string option \<Rightarrow> bool \<Rightarrow> database \<Rightarrow> error + (todo \<times> database)" where
  "create now t d c db =
     (if \<not> isValid t d then Inl (DatabaseError ''Failed to create todo'')
      else (case sql_insert now t d c db of
              (lastID, db') \<Rightarrow>
                (case findById lastID db' of
                   None \<Rightarrow> Inl (DatabaseError ''Failed to create todo'')
                 | Some createdTodo \<Rightarrow> Inr (createdTodo, db'))))"


definition delete :: "int \<Rightarrow> database \<Rightarrow> error + database" where
  "delete i db =
     (case findById i db of
        None \<Rightarrow> Inl (NotFoundError ''Todo not found'')
      | Some existingTodo \<Rightarrow>
          (case sql_delete i db of
             (changes, db') \<Rightarrow>
               if changes = 0 then Inl (NotFoundError ''Todo not found'') else Inr db'))"

definition deleteAll :: "database \<Rightarrow> deleteAllResult \<times> database" where
  "deleteAll db =
     (let initialCount = nat (sql_count [] db)
      in if initialCount = 0
         then (\<lparr>success = None, deletedCount = 0, previousCount = None\<rparr>, db)
         else (case sql_delete_all db of
                 (changes, db') \<Rightarrow>
                   (\<lparr>success = Some True, deletedCount = changes,
                     previousCount = Some initialCount\<rparr>, db')))"

definition getStats :: "database \<Rightarrow> stats" where
  "getStats db =
     \<lparr>total_todos = sql_count [] db,
      completed_todos = sql_count [CompletedEq True] db,
      pending_todos = sql_count [CompletedEq False] db\<rparr>"

subsection \<open>services/TodoService.js\<close>

definition validateId :: "int \<Rightarrow> error option" where
  "validateId i =
     (if i \<le> 0 then Some (ValidationError ''Invalid ID: must be a positive integer'') else None)"




definition allowedSortFields :: "string list" where
  "allowedSortFields = [''id'', ''title'', ''completed'', ''created_at'', ''updated_at'']"

definition validateQueryOptions :: "options \<Rightarrow> error + options" where
  "validateQueryOptions opts =
     (let page0 = (case o_page opts of None \<Rightarrow> 1 | Some p \<Rightarrow> p);
          per_page0 = (case o_per_page opts of None \<Rightarrow> 20 | Some p \<Rightarrow> p);
          sort0 = (case o_sort opts of None \<Rightarrow> ''created_at'' | Some s \<Rightarrow> s);
          order0 = (case o_order opts of None \<Rightarrow> ''desc'' | Some s \<Rightarrow> s);
          page = (if page0 < 1 then 1 else page0);
          per_page = (if per_page0 < 1 \<or> per_page0 > 100 then 20 else per_page0);
          sort_s = (if \<not> List.member allowedSortFields sort0 then ''created_at'' else sort0);
          order_s = (if \<not> List.member [''asc'', ''desc''] order0 then ''desc'' else order0)
      in if (case o_search opts of None \<Rightarrow> False | Some s \<Rightarrow> s \<noteq> [] \<and> length s > 255)
         then Inl (ValidationError ''Search query too long'')
         else Inr (opts\<lparr>o_page := Some page, o_per_page := Some per_page,
                        o_sort := Some sort_s, o_order := Some order_s\<rparr>))"




definition getTodos :: "options \<Rightarrow> database \<Rightarrow> error + PaginatedResponse" where
  "getTodos opts db =
     (case validateQueryOptions opts of
        Inl err \<Rightarrow> Inl err
      | Inr validatedOptions \<Rightarrow> findAll validatedOptions db)"

definition getTodoById :: "int \<Rightarrow> database \<Rightarrow> error + todo" where
  "getTodoById i db =
     (case validateId i of
        Some err \<Rightarrow> Inl err
      | None \<Rightarrow>
          (case findById i db of
             None \<Rightarrow> Inl (NotFoundError ''Todo not found'')
           | Some t \<Rightarrow> Inr t))"





section \<open>Notions of the specification\<close>

text \<open>The filter predicate of List: the search term, if there is one, is looked for in the
  title or in the description, and the completed filter, if there is one, is an equality.\<close>

definition matches :: "string \<Rightarrow> bool option \<Rightarrow> todo \<Rightarrow> bool" where
  "matches search_s completedFilter r =
     ((search_s = [] \<or> like (''%'' @ search_s @ ''%'') (Title r) \<or>
       (case Description r of None \<Rightarrow> False | Some d \<Rightarrow> like (''%'' @ search_s @ ''%'') d)) \<and>
      (case completedFilter of None \<Rightarrow> True | Some b \<Rightarrow> Completed r = b))"

text \<open>The page and page size in effect: a value out of range is replaced by the default.\<close>

definition effPage :: "int \<Rightarrow> int" where
  "effPage p = (if p < 1 then 1 else p)"

definition effPerPage :: "int \<Rightarrow> int" where
  "effPerPage n = (if n < 1 \<or> n > 100 then 20 else n)"

text \<open>Skip \<open>(page - 1) * perPage\<close> rows, take \<open>perPage\<close> rows.\<close>

definition window :: "int \<Rightarrow> int \<Rightarrow> 'a list \<Rightarrow> 'a list" where
  "window pg perPage xs = take (nat perPage) (drop (nat ((pg - 1) * perPage)) xs)"

text \<open>A string property of a JavaScript object that may be missing, as the string it
  stands for in a query (none).\<close>

definition optStr :: "string option \<Rightarrow> string" where
  "optStr s = (case s of None \<Rightarrow> [] | Some t \<Rightarrow> t)"

definition optInt :: "int \<Rightarrow> int option \<Rightarrow> int" where
  "optInt dflt v = (case v of None \<Rightarrow> dflt | Some n \<Rightarrow> n)"

text \<open>The sort column and direction in effect when the name is one of the five allowed
  ones or missing (\<open>created_at\<close> and \<open>desc\<close> are the defaults).\<close>

definition sortColumn :: "string \<Rightarrow> column" where
  "sortColumn s = (case column_of s of None \<Rightarrow> ColCreatedAt | Some c \<Rightarrow> c)"

definition sortDesc :: "string \<Rightarrow> bool" where
  "sortDesc s = (s \<noteq> ''asc'')"

text \<open>The query-building algorithm of the specification, steps 1 to 7: filter, count, sort,
  paginate, and return the page with \<open>total\<close>, \<open>page\<close>, \<open>perPage\<close> and \<open>totalPages\<close>.\<close>

definition list_result ::
  "column \<Rightarrow> bool \<Rightarrow> string \<Rightarrow> bool option \<Rightarrow> int \<Rightarrow> int \<Rightarrow> database \<Rightarrow> PaginatedResponse" where
  "list_result col desc search_s completedFilter pg perPage db =
     (let surviving = filter (matches search_s completedFilter) (rows db)
      in \<lparr>Data = window pg perPage (order_by col desc surviving),
          Total = int (length surviving), Page = pg, PerPage = perPage,
          TotalPages = ceil_div (int (length surviving)) perPage\<rparr>)"


text \<open>\<open>models.DefaultQueryParams\<close>, and a query object without properties.\<close>

definition DefaultQueryParams :: QueryParams where
  "DefaultQueryParams =
     \<lparr>qPage = 1, qPerPage = 20, qSort = ''created_at'', qOrder = ''desc'', qSearch = [],
      qCompleted = None\<rparr>"

definition noOptions :: options where
  "noOptions =
     \<lparr>o_page = None, o_per_page = None, o_sort = None, o_order = None, o_search = None,
      o_completed = None\<rparr>"


text \<open>The row that a successful create inserts and returns, for the Go request and for the
  fields the Node.js service passes to its repository.\<close>

definition new_row :: "database \<Rightarrow> nat \<Rightarrow> string \<Rightarrow> string option \<Rightarrow> bool \<Rightarrow> todo" where
  "new_row db now t d c =
     \<lparr>ID = next_rowid db, Title = t, Description = d, Completed = c, CreatedAt = now,
      UpdatedAt = now\<rparr>"

text \<open>The store states that the operations of each service produce from the empty table.\<close>

inductive reachable_go :: "database \<Rightarrow> bool" where
  go_init: "reachable_go empty_db"
| go_create: "reachable_go db \<Longrightarrow> CreateTodo now req db = Inr (t, db') \<Longrightarrow> reachable_go db'"
| go_update: "reachable_go db \<Longrightarrow> UpdateTodo now i ureq db = Inr (ot, db') \<Longrightarrow> reachable_go db'"
| go_delete: "reachable_go db \<Longrightarrow> DeleteTodo i db = Inr db' \<Longrightarrow> reachable_go db'"
| go_delete_all: "reachable_go db \<Longrightarrow> DeleteAllTodos db = Inr db' \<Longrightarrow> reachable_go db'"


text \<open>\<open>n\<close> successful calls of \<open>CreateTodo\<close>, each with the title \<open>t\<close> and the flag \<open>c\<close>.\<close>

fun create_many :: "nat \<Rightarrow> string \<Rightarrow> bool \<Rightarrow> database \<Rightarrow> database" where
  "create_many 0 t c db = db"
| "create_many (Suc n) t c db =
     (case CreateTodo 0 \<lparr>cTitle = t, cDescription = None, cCompleted = c\<rparr> db of
        Inl err \<Rightarrow> db
      | Inr (created, db') \<Rightarrow> create_many n t c db')"


text \<open>Literal substring containment: \<open>s\<close> occurs in \<open>t\<close> at some position.\<close>

definition literal_contains :: "string \<Rightarrow> string \<Rightarrow> bool" where
  "literal_contains s t = list_ex (\<lambda>i. take (length s) (drop i t) = s) [0..<Suc (length t)]"



text \<open>A table with three rows, for evaluating the operations on a concrete store.\<close>

definition sample_db :: database where
  "sample_db =
     \<lparr>rows =
        [\<lparr>ID = 1, Title = ''Buy milk'', Description = None, Completed = False,
          CreatedAt = 10, UpdatedAt = 10\<rparr>,
         \<lparr>ID = 2, Title = ''Learn Go Fiber'', Description = Some ''Build a REST API'',
          Completed = True, CreatedAt = 20, UpdatedAt = 25\<rparr>,
         \<lparr>ID = 3, Title = ''abc'', Description = Some ''100% done'', Completed = True,
          CreatedAt = 30, UpdatedAt = 30\<rparr>],
      seq = 3\<rparr>"

section \<open>Properties of the building blocks\<close>

subsection \<open>Trimming, LIKE and ORDER BY\<close>


lemma like_percent_any: "like ''%'' w"
  by (induction w) auto

lemma like_Nil_left: "like [] t = (t = [])"
  by (cases t) auto

lemma like_percent_skip: "like ps ts \<Longrightarrow> like (CHR ''%'' # ps) (w @ ts)"
proof (induction w)
  case Nil
  then show ?case by (cases ts) auto
next
  case (Cons a w)
  then show ?case by simp
qed

lemma like_append: "like p1 t1 \<Longrightarrow> like p2 t2 \<Longrightarrow> like (p1 @ p2) (t1 @ t2)"
proof (induction p1 t1 rule: like.induct)
  case 1
  then show ?case by simp
next
  case (2 c ts)
  then show ?case by simp
next
  case (3 p ps)
  then have p: "p = CHR ''%''" and ps: "like ps []" by auto
  from 3 ps have "like (ps @ p2) t2" by simp
  then have "like (CHR ''%'' # (ps @ p2)) ([] @ t2)"
    by (rule like_percent_skip)
  with p show ?case by simp
next
  case (4 p ps c ts)
  show ?case
  proof (cases "p = CHR ''%''")
    case True
    with 4 show ?thesis by auto
  next
    case False
    with 4 show ?thesis by auto
  qed
qed

lemma like_refl: "like p p"
proof (induction p)
  case Nil
  then show ?case by simp
next
  case (Cons a p)
  show ?case
  proof (cases "a = CHR ''%''")
    case True
    from Cons have "like (CHR ''%'' # p) ([] @ p)"
      by (rule like_percent_skip)
    with True show ?thesis by simp
  next
    case False
    with Cons show ?thesis by simp
  qed
qed

lemma like_underscore_any: "like ''_'' [c]"
  by simp

lemma str_le_refl: "str_le s s"
  by (induction s) auto







lemma mset_insort_by: "mset (insort_by le x xs) = add_mset x (mset xs)"
  by (induction xs) auto



lemma mset_order_by: "mset (order_by c d xs) = mset xs"
  unfolding order_by_def by (induction xs) (auto simp: mset_insort_by)


lemma length_order_by: "length (order_by c d xs) = length xs"
  by (metis mset_order_by size_mset)

lemma set_order_by: "set (order_by c d xs) = set xs"
  by (metis mset_order_by set_mset_mset)

subsection \<open>Arithmetic and membership\<close>

lemma ToUpper_asc: "ToUpper ''asc'' = ''ASC''"
  by code_simp

lemma ToUpper_desc: "ToUpper ''desc'' = ''DESC''"
  by code_simp

lemma int64_id: "- (2 ^ 63) \<le> x \<Longrightarrow> x < 2 ^ 63 \<Longrightarrow> int64 x = x"
  unfolding int64_def by (simp add: mod_pos_pos_trivial) 

lemma quot_nonneg: "0 \<le> a \<Longrightarrow> 0 < b \<Longrightarrow> quot a b = a div b"
  by (cases "a = 0") (simp_all add: quot_def)

lemma ceil_div_alt:
  assumes "0 < b"
  shows "(a + b - 1) div b = ceil_div a b"
proof -
  define q where "q = a div b"
  define r where "r = a mod b"
  have r: "0 \<le> r" "r < b" using assms by (simp_all add: r_def)
  have a: "a = q * b + r" by (simp add: q_def r_def)
  have lhs: "(a + b - 1) div b = q + (r + b - 1) div b"
  proof -
    have e1: "a + b - 1 = (r + b - 1) + q * b" using a by simp
    have bnz: "b \<noteq> 0" using assms by simp
    show ?thesis by (simp only: e1 div_mult_self1[OF bnz])
  qed
  have rhs: "(- a) div b = (if r = 0 then - q else - q - 1)"
    using assms by (simp add: zdiv_zminus1_eq_if q_def r_def)
  show ?thesis
  proof (cases "r = 0")
    case True
    then have "(r + b - 1) div b = 0" using assms by (simp add: div_pos_pos_trivial)
    with True lhs rhs show ?thesis by (simp add: ceil_div_def)
  next
    case False
    have e2: "(r + b - 1) = (r - 1) + 1 * b" by simp
    have bnz: "b \<noteq> 0" using assms by simp
    have "(r + b - 1) div b = 1 + (r - 1) div b"
      by (simp only: e2 div_mult_self1[OF bnz])
    moreover have "(r - 1) div b = 0" using False r by (simp add: div_pos_pos_trivial)
    ultimately show ?thesis using False lhs rhs by (simp add: ceil_div_def)
  qed
qed


lemma contains_member: "contains xs x = (x \<in> set xs)"
  by (induction xs) auto

lemma member_set: "List.member xs x = (x \<in> set xs)"
  by simp

lemma column_of_valid: "(column_of s \<noteq> None) = (s \<in> set validSortFields)"
  by (auto simp: column_of_def validSortFields_def)

subsection \<open>List computes the query-building algorithm\<close>

lemma eval_where_matches:
  "eval_where ((if s \<noteq> [] then [TitleOrDescriptionLike (''%'' @ s @ ''%'') (''%'' @ s @ ''%'')] else []) @
               (case c of None \<Rightarrow> [] | Some b \<Rightarrow> [CompletedEq b])) r = matches s c r"
  by (auto simp: eval_where_def matches_def split: option.splits)

lemma eval_where_search:
  "s \<noteq> [] \<Longrightarrow>
   eval_where (TitleOrDescriptionLike (CHR ''%'' # s @ ''%'') (CHR ''%'' # s @ ''%'') #
               (case c of None \<Rightarrow> [] | Some b \<Rightarrow> [CompletedEq b])) = matches s c"
  using eval_where_matches[of s c] by (intro ext) simp

lemma eval_where_nosearch:
  "eval_where (case c of None \<Rightarrow> [] | Some b \<Rightarrow> [CompletedEq b]) = matches [] c"
  using eval_where_matches[of "[]" c] by (intro ext) simp

lemma sql_limit_window:
  "0 \<le> perPage \<Longrightarrow> sql_limit perPage ((pg - 1) * perPage) xs = window pg perPage xs"
  by (simp add: sql_limit_def window_def)

lemma effPerPage_range: "1 \<le> effPerPage n \<and> effPerPage n \<le> 100"
  by (simp add: effPerPage_def)

lemma effPage_pos: "1 \<le> effPage p"
  by (simp add: effPage_def)

lemma sortColumn_valid: "s \<in> set validSortFields \<Longrightarrow> column_of s = Some (sortColumn s)"
  using column_of_valid[of s] by (auto simp: sortColumn_def)

lemma sortColumn_default: "sortColumn [] = ColCreatedAt" "column_of ''created_at'' = Some ColCreatedAt"
  by (simp_all add: sortColumn_def column_of_def)

lemma GetAll_eq:
  assumes "column_of (qSort p) = Some col" and "direction_of (ToUpper (qOrder p)) = Some desc"
    and "0 \<le> qPerPage p" and "0 \<le> (qPage p - 1) * qPerPage p" and "(qPage p - 1) * qPerPage p < 2 ^ 63"
  shows "GetAll p db =
           Inr (window (qPage p) (qPerPage p)
                  (order_by col desc (filter (matches (qSearch p) (qCompleted p)) (rows db))),
                int (length (filter (matches (qSearch p) (qCompleted p)) (rows db))))"
proof -
  have i: "int64 ((qPage p - 1) * qPerPage p) = (qPage p - 1) * qPerPage p"
    using assms(4,5) by (intro int64_id) simp_all
  show ?thesis
    using assms(1,2,3)
    by (simp add: GetAll_def Let_def i sql_select_def sql_count_def sql_limit_window
        eval_where_search eval_where_nosearch)
qed

lemma setDefaults_fields:
  "qPage (setDefaults p) = effPage (qPage p)"
  "qPerPage (setDefaults p) = effPerPage (qPerPage p)"
  "qSort (setDefaults p) = (if qSort p = [] then ''created_at'' else qSort p)"
  "qOrder (setDefaults p) = (if qOrder p = [] then ''desc'' else qOrder p)"
  "qSearch (setDefaults p) = qSearch p"
  "qCompleted (setDefaults p) = qCompleted p"
  by (simp_all add: setDefaults_def Let_def effPage_def effPerPage_def)

lemma GetTodos_char:
  assumes sort: "qSort p = [] \<or> qSort p \<in> set validSortFields"
    and order: "qOrder p = [] \<or> qOrder p = ''asc'' \<or> qOrder p = ''desc''"
    and ofs: "(effPage (qPage p) - 1) * effPerPage (qPerPage p) < 2 ^ 63"
  shows "GetTodos p db =
           Inr (list_result (sortColumn (qSort p)) (sortDesc (qOrder p)) (qSearch p) (qCompleted p)
                  (effPage (qPage p)) (effPerPage (qPerPage p)) db)"
proof -
  let ?q = "setDefaults p"
  have s1: "qSort ?q \<in> set validSortFields"
    using sort by (auto simp: setDefaults_fields validSortFields_def)
  then have c1: "contains validSortFields (qSort ?q)" by (simp add: contains_member)
  have col: "column_of (qSort ?q) = Some (sortColumn (qSort p))"
    using sort sortColumn_valid[of "qSort p"] by (auto simp: setDefaults_fields sortColumn_default)
  have o1: "qOrder ?q = ''asc'' \<or> qOrder ?q = ''desc''"
    using order by (auto simp: setDefaults_fields)
  have dir: "direction_of (ToUpper (qOrder ?q)) = Some (sortDesc (qOrder p))"
    using order by (auto simp: setDefaults_fields sortDesc_def direction_of_def ToUpper_asc ToUpper_desc)
  have pp: "1 \<le> qPerPage ?q" "1 \<le> qPage ?q"
    using effPerPage_range effPage_pos by (simp_all add: setDefaults_fields)
  then have nonneg: "0 \<le> (qPage ?q - 1) * qPerPage ?q" by simp
  have g: "GetAll ?q db =
           Inr (window (qPage ?q) (qPerPage ?q)
                  (order_by (sortColumn (qSort p)) (sortDesc (qOrder p)) (filter (matches (qSearch ?q) (qCompleted ?q)) (rows db))),
                int (length (filter (matches (qSearch ?q) (qCompleted ?q)) (rows db))))"
    using pp ofs by (intro GetAll_eq[OF col dir _ nonneg]) (simp_all add: setDefaults_fields)
  have q: "quot (int (length (filter (matches (qSearch p) (qCompleted p)) (rows db))) + effPerPage (qPerPage p) - 1) (effPerPage (qPerPage p))
         = ceil_div (int (length (filter (matches (qSearch p) (qCompleted p)) (rows db)))) (effPerPage (qPerPage p))"
    using effPerPage_range[of "qPerPage p"]
    by (subst quot_nonneg) (simp_all add: ceil_div_alt)
  show ?thesis
    using c1 o1 by (auto simp: GetTodos_def Let_def g list_result_def setDefaults_fields q)
qed

lemma validateQueryOptions_ok:
  assumes "case o_search opts of None \<Rightarrow> True | Some s \<Rightarrow> length s \<le> 255"
  shows "validateQueryOptions opts =
           Inr (opts\<lparr>o_page := Some (effPage (optInt 1 (o_page opts))),
                     o_per_page := Some (effPerPage (optInt 20 (o_per_page opts))),
                     o_sort := Some (case o_sort opts of None \<Rightarrow> ''created_at'' | Some s \<Rightarrow> if s \<in> set allowedSortFields then s else ''created_at''),
                     o_order := Some (case o_order opts of None \<Rightarrow> ''desc'' | Some s \<Rightarrow> if s = ''asc'' \<or> s = ''desc'' then s else ''desc'')\<rparr>)"
  using assms
  by (auto simp: validateQueryOptions_def Let_def effPage_def effPerPage_def optInt_def
      split: option.splits)

lemma getTodos_char:
  assumes "case o_search opts of None \<Rightarrow> True | Some s \<Rightarrow> length s \<le> 255"
  shows "getTodos opts db =
           Inr (list_result (sortColumn (optStr (o_sort opts))) (sortDesc (optStr (o_order opts)))
                  (optStr (o_search opts)) (o_completed opts)
                  (effPage (optInt 1 (o_page opts)))
                  (effPerPage (optInt 20 (o_per_page opts))) db)"
proof -
  let ?s = "case o_sort opts of None \<Rightarrow> ''created_at'' | Some s \<Rightarrow> if s \<in> set allowedSortFields then s else ''created_at''"
  let ?o = "case o_order opts of None \<Rightarrow> ''desc'' | Some s \<Rightarrow> if s = ''asc'' \<or> s = ''desc'' then s else ''desc''"
  have col: "column_of ?s = Some (sortColumn (optStr (o_sort opts)))"
    by (auto simp: optStr_def column_of_def sortColumn_def allowedSortFields_def split: option.splits)
  have dir: "direction_of (ToUpper ?o) = Some (sortDesc (optStr (o_order opts)))"
    by (auto simp: optStr_def sortDesc_def direction_of_def ToUpper_asc ToUpper_desc split: option.splits)
  have pp: "0 \<le> effPerPage (optInt 20 (o_per_page opts))"
    using effPerPage_range[of "optInt 20 (o_per_page opts)"] by simp
  show ?thesis
    unfolding getTodos_def validateQueryOptions_ok[OF assms]
    using pp
    by (cases "o_search opts")
       (simp_all add: findAll_def Let_def col dir sql_select_def sql_count_def sql_limit_window
          list_result_def optStr_def optInt_def eval_where_search eval_where_nosearch)
qed

lemma list_result_fields:
  "Data (list_result col desc s c pg pp db) = window pg pp (order_by col desc (filter (matches s c) (rows db)))"
  "Total (list_result col desc s c pg pp db) = int (length (filter (matches s c) (rows db)))"
  "Page (list_result col desc s c pg pp db) = pg"
  "PerPage (list_result col desc s c pg pp db) = pp"
  "TotalPages (list_result col desc s c pg pp db) = ceil_div (int (length (filter (matches s c) (rows db)))) pp"
  by (simp_all add: list_result_def Let_def)






lemma GetTodos_valid:
  assumes "1 \<le> qPage p" and "1 \<le> qPerPage p" and "qPerPage p \<le> 100"
    and "qSort p \<in> set validSortFields" and "qOrder p = ''asc'' \<or> qOrder p = ''desc''"
    and "(qPage p - 1) * qPerPage p < 2 ^ 63"
  shows "GetTodos p db =
           Inr (list_result (sortColumn (qSort p)) (sortDesc (qOrder p)) (qSearch p) (qCompleted p)
                  (qPage p) (qPerPage p) db)"
proof -
  have e: "effPage (qPage p) = qPage p" "effPerPage (qPerPage p) = qPerPage p"
    using assms by (simp_all add: effPage_def effPerPage_def)
  show ?thesis
    using GetTodos_char[of p db] assms by (simp add: e)
qed


lemma sample_rows:
  "rows sample_db =
        [\<lparr>ID = 1, Title = ''Buy milk'', Description = None, Completed = False,
          CreatedAt = 10, UpdatedAt = 10\<rparr>,
         \<lparr>ID = 2, Title = ''Learn Go Fiber'', Description = Some ''Build a REST API'',
          Completed = True, CreatedAt = 20, UpdatedAt = 25\<rparr>,
         \<lparr>ID = 3, Title = ''abc'', Description = Some ''100% done'', Completed = True,
          CreatedAt = 30, UpdatedAt = 30\<rparr>]"
  by (simp add: sample_db_def)

subsection \<open>Invalid sort parameters\<close>





subsection \<open>Wildcards in the search term\<close>

lemma like_contains: "like pat t \<Longrightarrow> like (''%'' @ pat @ ''%'') (pre @ t @ post)"
proof -
  assume a: "like pat t"
  have "like (pat @ ''%'') (t @ post)"
    using a like_percent_any by (rule like_append)
  then have "like (CHR ''%'' # (pat @ ''%'')) (pre @ (t @ post))"
    by (rule like_percent_skip)
  then show ?thesis by simp
qed

lemma like_underscore_wild: "like (s1 @ ''_'' @ s2) (s1 @ [c] @ s2)"
proof -
  have "like (''_'' @ s2) ([c] @ s2)"
    using like_underscore_any like_refl by (rule like_append)
  with like_refl show ?thesis by (rule like_append)
qed

lemma like_percent_wild: "like (s1 @ ''%'' @ s2) (s1 @ w @ s2)"
proof -
  have "like (''%'' @ s2) (w @ s2)"
    using like_percent_any like_refl by (rule like_append)
  with like_refl show ?thesis by (rule like_append)
qed

lemma matches_title: "like (''%'' @ s @ ''%'') (Title r) \<Longrightarrow> matches s None r"
  by (simp add: matches_def)

lemma matches_description:
  "Description r = Some d \<Longrightarrow> like (''%'' @ s @ ''%'') d \<Longrightarrow> matches s None r"
  by (simp add: matches_def)

lemma matches_wild:
  assumes "Title r = pre @ t @ post \<or> Description r = Some (pre @ t @ post)" and "like pat t"
  shows "matches pat None r"
  using assms like_contains[OF assms(2), of pre post]
  by (auto intro: matches_title matches_description)

lemma window_first_page:
  "int (length xs) \<le> pp \<Longrightarrow> window 1 pp xs = xs"
  by (simp add: window_def)

lemma GetTodos_search_small:
  assumes "length (rows db) \<le> 20" and "r \<in> set (rows db)" and "matches s None r"
  shows "case GetTodos (DefaultQueryParams\<lparr>qSearch := s\<rparr>) db of
           Inl err \<Rightarrow> False | Inr res \<Rightarrow> r \<in> set (Data res)"
proof -
  let ?p = "DefaultQueryParams\<lparr>qSearch := s\<rparr>"
  have g: "GetTodos ?p db =
           Inr (list_result (sortColumn (qSort ?p)) (sortDesc (qOrder ?p)) (qSearch ?p) (qCompleted ?p)
                  (qPage ?p) (qPerPage ?p) db)"
    by (rule GetTodos_valid) (simp_all add: DefaultQueryParams_def validSortFields_def)
  have "length (filter (matches s None) (rows db)) \<le> 20"
    using length_filter_le assms(1) by (rule order_trans)
  then have "int (length (order_by ColCreatedAt True (filter (matches s None) (rows db)))) \<le> 20"
    by (simp add: length_order_by)
  then have "window 1 20 (order_by ColCreatedAt True (filter (matches s None) (rows db)))
      = order_by ColCreatedAt True (filter (matches s None) (rows db))"
    by (rule window_first_page)
  with assms(2,3) show ?thesis
    unfolding g
    by (simp add: list_result_fields DefaultQueryParams_def sortColumn_def column_of_def
        sortDesc_def set_order_by)
qed

lemma getTodos_search_small:
  assumes "length (rows db) \<le> 20" and "r \<in> set (rows db)" and "matches s None r"
    and "length s \<le> 255"
  shows "case getTodos (noOptions\<lparr>o_search := Some s\<rparr>) db of
           Inl err \<Rightarrow> False | Inr res \<Rightarrow> r \<in> set (Data res)"
proof -
  let ?o = "noOptions\<lparr>o_search := Some s\<rparr>"
  have a: "case o_search ?o of None \<Rightarrow> True | Some t \<Rightarrow> length t \<le> 255"
    using assms(4) by simp
  have "length (filter (matches s None) (rows db)) \<le> 20"
    using length_filter_le assms(1) by (rule order_trans)
  then have "int (length (order_by ColCreatedAt True (filter (matches s None) (rows db)))) \<le> 20"
    by (simp add: length_order_by)
  then have "window 1 20 (order_by ColCreatedAt True (filter (matches s None) (rows db)))
      = order_by ColCreatedAt True (filter (matches s None) (rows db))"
    by (rule window_first_page)
  with assms(2,3) show ?thesis
    unfolding getTodos_char[OF a]
    by (simp add: list_result_fields noOptions_def sortColumn_def column_of_def
        sortDesc_def set_order_by optStr_def optInt_def effPage_def effPerPage_def)
qed

subsection \<open>Create\<close>


lemma foldr_max_mem: "x \<in> set xs \<Longrightarrow> x \<le> foldr max xs (s::int)"
  by (induction xs) auto

lemma next_rowid_gt: "r \<in> set (rows db) \<Longrightarrow> ID r < next_rowid db"
  using foldr_max_mem[of "ID r" "map ID (rows db)" "seq db"] by (simp add: next_rowid_def)


lemma find_append_new:
  assumes "\<And>r. r \<in> set xs \<Longrightarrow> \<not> P r" and "P x"
  shows "find P (xs @ [x]) = Some x"
  using assms by (induction xs) auto

lemma sql_insert_eq:
  "sql_insert now t d c db =
     (next_rowid db, \<lparr>rows = rows db @ [new_row db now t d c], seq = next_rowid db\<rparr>)"
  by (simp add: sql_insert_def Let_def new_row_def)

lemma select_inserted:
  "sql_select_by_id (next_rowid db)
     \<lparr>rows = rows db @ [new_row db now t d c], seq = next_rowid db\<rparr> = Some (new_row db now t d c)"
proof -
  have "find (\<lambda>r. ID r = next_rowid db) (rows db @ [new_row db now t d c]) = Some (new_row db now t d c)"
  proof (rule find_append_new)
    fix r assume "r \<in> set (rows db)"
    then show "ID r \<noteq> next_rowid db" using next_rowid_gt[of r db] by simp
  next
    show "ID (new_row db now t d c) = next_rowid db" by (simp add: new_row_def)
  qed
  then show ?thesis by (simp add: sql_select_by_id_def)
qed

lemma Create_eq:
  "Create now t db =
     Inr (new_row db now (Title t) (Description t) (Completed t),
          \<lparr>rows = rows db @ [new_row db now (Title t) (Description t) (Completed t)],
           seq = next_rowid db\<rparr>)"
  by (simp add: Create_def sql_insert_eq GetByID_def select_inserted)


lemma CreateTodo_eq:
  "CreateTodo now req db =
     (if TrimSpace (cTitle req) = [] then Inl (Errorf ''title is required'')
      else if length (cTitle req) > 255 then Inl (Errorf ''title cannot exceed 255 characters'')
      else if (case cDescription req of None \<Rightarrow> False | Some d \<Rightarrow> length d > 1000)
      then Inl (Errorf ''description cannot exceed 1000 characters'')
      else Inr (new_row db now (TrimSpace (cTitle req))
                  (case cDescription req of None \<Rightarrow> None | Some d \<Rightarrow> trimDescription d)
                  (cCompleted req),
                \<lparr>rows = rows db @
                   [new_row db now (TrimSpace (cTitle req))
                      (case cDescription req of None \<Rightarrow> None | Some d \<Rightarrow> trimDescription d)
                      (cCompleted req)],
                 seq = next_rowid db\<rparr>))"
  by (simp add: CreateTodo_def validateCreateRequest_def Create_eq Let_def)







subsection \<open>Update\<close>
















subsection \<open>What every operation preserves\<close>
























subsection \<open>The entity that Create returns\<close>



lemma new_row_fields:
  "ID (new_row db now t d c) = next_rowid db"
  "Title (new_row db now t d c) = t"
  "Description (new_row db now t d c) = d"
  "Completed (new_row db now t d c) = c"
  "CreatedAt (new_row db now t d c) = now"
  "UpdatedAt (new_row db now t d c) = now"
  by (simp_all add: new_row_def)




subsection \<open>Descriptions and partial updates\<close>














subsection \<open>Statistics\<close>

lemma countTodos_eq:
  "countTodos xs st =
     st\<lparr>completed_todos := completed_todos st + int (length (filter Completed xs)),
        pending_todos := pending_todos st + int (length (filter (\<lambda>t. \<not> Completed t) xs))\<rparr>"
  by (induction xs arbitrary: st) auto

lemma matches_all: "matches [] None = (\<lambda>r. True)"
  by (rule ext) (simp add: matches_def)

lemma GetTodoStats_eq:
  "GetTodoStats db =
     Inr \<lparr>total_todos = int (length (rows db)),
          completed_todos =
            int (length (filter Completed (take 20 (order_by ColCreatedAt True (rows db))))),
          pending_todos =
            int (length (filter (\<lambda>t. \<not> Completed t)
                           (take 20 (order_by ColCreatedAt True (rows db)))))\<rparr>"
proof -
  let ?p = "\<lparr>qPage = 1, qPerPage = 1000, qSort = ''created_at'', qOrder = ''desc'',
                    qSearch = [], qCompleted = None\<rparr>"
  have "GetTodos ?p db =
           Inr (list_result (sortColumn (qSort ?p)) (sortDesc (qOrder ?p)) (qSearch ?p) (qCompleted ?p)
                  (effPage (qPage ?p)) (effPerPage (qPerPage ?p)) db)"
    by (rule GetTodos_char) (simp_all add: validSortFields_def effPage_def effPerPage_def)
  then have g: "GetTodos ?p db = Inr (list_result ColCreatedAt True [] None 1 20 db)"
    by (simp add: sortColumn_def column_of_def sortDesc_def effPage_def effPerPage_def)
  show ?thesis
    unfolding GetTodoStats_def Let_def g
    by (simp add: list_result_fields countTodos_eq matches_all window_def)
qed

lemma GetTodoStats_sum:
  "case GetTodoStats db of
     Inl err \<Rightarrow> False
   | Inr st \<Rightarrow>
       total_todos st = int (length (rows db)) \<and>
       completed_todos st + pending_todos st = int (min 20 (length (rows db)))"
proof -
  have "length (filter Completed (take 20 (order_by ColCreatedAt True (rows db)))) +
        length (filter (\<lambda>t. \<not> Completed t) (take 20 (order_by ColCreatedAt True (rows db)))) =
        length (take 20 (order_by ColCreatedAt True (rows db)))"
    by (rule sum_length_filter_compl)
  also have "\<dots> = min 20 (length (rows db))"
    by (simp add: length_order_by min.commute)
  finally have "int (length (filter Completed (take 20 (order_by ColCreatedAt True (rows db))))) +
        int (length (filter (\<lambda>t. \<not> Completed t) (take 20 (order_by ColCreatedAt True (rows db))))) =
        int (min 20 (length (rows db)))"
    by (metis of_nat_add)
  then show ?thesis
    by (simp add: GetTodoStats_eq)
qed

lemma eval_where_Nil: "eval_where [] = (\<lambda>r. True)"
  by (rule ext) (simp add: eval_where_def)

lemma eval_where_completed: "eval_where [CompletedEq b] = (\<lambda>r. Completed r = b)"
  by (rule ext) (simp add: eval_where_def)

lemma getStats_sum:
  "completed_todos (getStats db) + pending_todos (getStats db) = total_todos (getStats db) \<and>
   total_todos (getStats db) = int (length (rows db))"
proof -
  have "length (filter Completed (rows db)) + length (filter (\<lambda>t. \<not> Completed t) (rows db)) =
        length (rows db)"
    by (rule sum_length_filter_compl)
  then have "int (length (filter Completed (rows db))) +
             int (length (filter (\<lambda>t. \<not> Completed t) (rows db))) = int (length (rows db))"
    by (metis of_nat_add)
  then show ?thesis
    by (simp add: getStats_def sql_count_def eval_where_Nil eval_where_completed)
qed

lemma create_many_Suc:
  assumes "TrimSpace t \<noteq> []" and "length t \<le> 255"
  shows "create_many (Suc n) t c db =
           create_many n t c
             \<lparr>rows = rows db @ [new_row db 0 (TrimSpace t) None c], seq = next_rowid db\<rparr>"
  using assms by (simp add: CreateTodo_eq)

lemma create_many_length:
  assumes "TrimSpace t \<noteq> []" and "length t \<le> 255"
  shows "length (rows (create_many n t c db)) = length (rows db) + n"
proof (induction n arbitrary: db)
  case 0
  show ?case by simp
next
  case (Suc n)
  show ?case
    unfolding create_many_Suc[OF assms] Suc.IH by simp
qed

lemma create_many_completed:
  assumes "TrimSpace t \<noteq> []" and "length t \<le> 255"
    and "list_all (\<lambda>r. Completed r = c) (rows db)"
  shows "list_all (\<lambda>r. Completed r = c) (rows (create_many n t c db))"
  using assms(3)
proof (induction n arbitrary: db)
  case 0
  then show ?case by simp
next
  case (Suc n)
  have "list_all (\<lambda>r. Completed r = c)
          (rows \<lparr>rows = rows db @ [new_row db 0 (TrimSpace t) None c], seq = next_rowid db\<rparr>)"
    using Suc.prems by (simp add: new_row_fields)
  then show ?case
    unfolding create_many_Suc[OF assms(1,2)] by (rule Suc.IH)
qed

lemma create_many_reachable:
  assumes "TrimSpace t \<noteq> []" and "length t \<le> 255" and "reachable_go db"
  shows "reachable_go (create_many n t c db)"
  using assms(3)
proof (induction n arbitrary: db)
  case 0
  then show ?case by simp
next
  case (Suc n)
  have "CreateTodo 0 \<lparr>cTitle = t, cDescription = None, cCompleted = c\<rparr> db =
          Inr (new_row db 0 (TrimSpace t) None c,
               \<lparr>rows = rows db @ [new_row db 0 (TrimSpace t) None c], seq = next_rowid db\<rparr>)"
    using assms(1,2) by (simp add: CreateTodo_eq)
  with Suc.prems
  have "reachable_go \<lparr>rows = rows db @ [new_row db 0 (TrimSpace t) None c], seq = next_rowid db\<rparr>"
    by (rule go_create)
  then show ?case
    unfolding create_many_Suc[OF assms(1,2)] by (rule Suc.IH)
qed

lemma TrimSpace_t: "TrimSpace ''t'' = ''t''"
  by code_simp

lemma filter_none:
  "list_all (\<lambda>r. \<not> P r) xs \<Longrightarrow> filter P xs = []"
  by (induction xs) auto

lemma filter_all:
  "list_all P xs \<Longrightarrow> filter P xs = xs"
  by (induction xs) auto

lemma list_all_take_order_by:
  "list_all P xs \<Longrightarrow> list_all P (take n (order_by col desc xs))"
proof -
  assume "list_all P xs"
  then have "\<forall>x\<in>set (order_by col desc xs). P x"
    by (simp add: list_all_iff set_order_by)
  then show ?thesis
    by (auto simp: list_all_iff dest: in_set_takeD)
qed

subsection \<open>The completed filter\<close>













section \<open>The claims\<close>

subsection \<open>C2: DeleteAll\<close>

text \<open>C2, as claimed: DeleteAll succeeds on a store that is already empty and returns the
  count 0.  The Go repository does not: with no row affected \<open>DeleteAll\<close> returns the error
  \<open>no todos found to delete\<close>, which the service wraps.\<close>

theorem C2_counterexample:
  "DeleteAll empty_db = Inl (Errorf ''no todos found to delete'') \<and>
   DeleteAllTodos empty_db = Inl (Errorf ''failed to delete all todos: no todos found to delete'')"
  by (simp add: DeleteAllTodos_def DeleteAll_def sql_delete_all_def empty_db_def)

text \<open>C2, amended: DeleteAll removes every row and leaves the id sequence alone.  The
  Node.js repository returns the number of rows deleted, 0 on an empty table.  The Go
  service returns no count; it succeeds exactly when the table had a row, and on an empty
  table it fails with \<open>failed to delete all todos: no todos found to delete\<close>.\<close>

theorem C2_delete_all:
  "rows (snd (deleteAll db)) = [] \<and>
   seq (snd (deleteAll db)) = seq db \<and>
   deletedCount (fst (deleteAll db)) = length (rows db) \<and>
   DeleteAllTodos db =
     (if rows db = [] then Inl (Errorf ''failed to delete all todos: no todos found to delete'')
      else Inr (db\<lparr>rows := []\<rparr>))"
  by (simp add: deleteAll_def DeleteAllTodos_def DeleteAll_def sql_delete_all_def sql_count_def
      eval_where_def Let_def)

theorem C2_delete_all_witness:
  "deleteAll empty_db = (\<lparr>success = None, deletedCount = 0, previousCount = None\<rparr>, empty_db) \<and>
   deletedCount (fst (deleteAll sample_db)) = 3 \<and>
   rows (snd (deleteAll sample_db)) = [] \<and>
   DeleteAllTodos sample_db = Inr \<lparr>rows = [], seq = 3\<rparr>"
  using C2_delete_all[of sample_db] C2_delete_all[of empty_db]
  by (simp add: deleteAll_def sql_count_def eval_where_def empty_db_def sample_db_def)

subsection \<open>C10: the page envelope echoes the values in effect\<close>



subsection \<open>C4: one filter predicate for the count and for the page\<close>



subsection \<open>C3: a sort field or order that is not allowed\<close>




subsection \<open>C9: wildcards in the search term\<close>

text \<open>C9: the search term is put between two \<open>%\<close> and matched with LIKE, so an underscore
  in it stands for any single character and a percent sign for any sequence of characters:
  a row whose title or description contains the term with these replaced is returned (here
  on a table that fits one default page).  This is not literal containment: the term
  \<open>a_c\<close> finds the row titled \<open>abc\<close>.\<close>

theorem C9_search_wildcards:
  "(length (rows db) \<le> 20 \<and> r \<in> set (rows db) \<and>
    (Title r = pre @ s1 @ [c] @ s2 @ post \<or> Description r = Some (pre @ s1 @ [c] @ s2 @ post)) \<longrightarrow>
      (case GetTodos (DefaultQueryParams\<lparr>qSearch := s1 @ ''_'' @ s2\<rparr>) db of
         Inl err \<Rightarrow> False | Inr res \<Rightarrow> r \<in> set (Data res)) \<and>
      (length (s1 @ ''_'' @ s2) \<le> 255 \<longrightarrow>
        (case getTodos (noOptions\<lparr>o_search := Some (s1 @ ''_'' @ s2)\<rparr>) db of
           Inl err \<Rightarrow> False | Inr res \<Rightarrow> r \<in> set (Data res)))) \<and>
   (length (rows db) \<le> 20 \<and> r \<in> set (rows db) \<and>
    (Title r = pre @ s1 @ w @ s2 @ post \<or> Description r = Some (pre @ s1 @ w @ s2 @ post)) \<longrightarrow>
      (case GetTodos (DefaultQueryParams\<lparr>qSearch := s1 @ ''%'' @ s2\<rparr>) db of
         Inl err \<Rightarrow> False | Inr res \<Rightarrow> r \<in> set (Data res)) \<and>
      (length (s1 @ ''%'' @ s2) \<le> 255 \<longrightarrow>
        (case getTodos (noOptions\<lparr>o_search := Some (s1 @ ''%'' @ s2)\<rparr>) db of
           Inl err \<Rightarrow> False | Inr res \<Rightarrow> r \<in> set (Data res)))) \<and>
   \<not> literal_contains ''a_c'' ''abc'' \<and>
   GetTodos (DefaultQueryParams\<lparr>qSearch := ''a_c''\<rparr>) sample_db =
     Inr \<lparr>Data = [\<lparr>ID = 3, Title = ''abc'', Description = Some ''100% done'', Completed = True,
                   CreatedAt = 30, UpdatedAt = 30\<rparr>],
          Total = 1, Page = 1, PerPage = 20, TotalPages = 1\<rparr> \<and>
   getTodos (noOptions\<lparr>o_search := Some ''a_c''\<rparr>) sample_db =
     Inr \<lparr>Data = [\<lparr>ID = 3, Title = ''abc'', Description = Some ''100% done'', Completed = True,
                   CreatedAt = 30, UpdatedAt = 30\<rparr>],
          Total = 1, Page = 1, PerPage = 20, TotalPages = 1\<rparr>"
proof (intro conjI impI)
  assume a: "length (rows db) \<le> 20 \<and> r \<in> set (rows db) \<and>
    (Title r = pre @ s1 @ [c] @ s2 @ post \<or> Description r = Some (pre @ s1 @ [c] @ s2 @ post))"
  then have m: "matches (s1 @ ''_'' @ s2) None r"
    using matches_wild[of r pre "s1 @ [c] @ s2" post "s1 @ ''_'' @ s2"] like_underscore_wild[of s1 s2 c]
    by simp
  from a m show "case GetTodos (DefaultQueryParams\<lparr>qSearch := s1 @ ''_'' @ s2\<rparr>) db of
         Inl err \<Rightarrow> False | Inr res \<Rightarrow> r \<in> set (Data res)"
    by (intro GetTodos_search_small) simp_all
  assume "length (s1 @ ''_'' @ s2) \<le> 255"
  with a m show "case getTodos (noOptions\<lparr>o_search := Some (s1 @ ''_'' @ s2)\<rparr>) db of
           Inl err \<Rightarrow> False | Inr res \<Rightarrow> r \<in> set (Data res)"
    by (intro getTodos_search_small) simp_all
next
  assume a: "length (rows db) \<le> 20 \<and> r \<in> set (rows db) \<and>
    (Title r = pre @ s1 @ w @ s2 @ post \<or> Description r = Some (pre @ s1 @ w @ s2 @ post))"
  then have m: "matches (s1 @ ''%'' @ s2) None r"
    using matches_wild[of r pre "s1 @ w @ s2" post "s1 @ ''%'' @ s2"] like_percent_wild[of s1 s2 w]
    by simp
  from a m show "case GetTodos (DefaultQueryParams\<lparr>qSearch := s1 @ ''%'' @ s2\<rparr>) db of
         Inl err \<Rightarrow> False | Inr res \<Rightarrow> r \<in> set (Data res)"
    by (intro GetTodos_search_small) simp_all
  assume "length (s1 @ ''%'' @ s2) \<le> 255"
  with a m show "case getTodos (noOptions\<lparr>o_search := Some (s1 @ ''%'' @ s2)\<rparr>) db of
           Inl err \<Rightarrow> False | Inr res \<Rightarrow> r \<in> set (Data res)"
    by (intro getTodos_search_small) simp_all
next
  show "\<not> literal_contains ''a_c'' ''abc''"
    by code_simp
next
  show "GetTodos (DefaultQueryParams\<lparr>qSearch := ''a_c''\<rparr>) sample_db =
     Inr \<lparr>Data = [\<lparr>ID = 3, Title = ''abc'', Description = Some ''100% done'', Completed = True,
                   CreatedAt = 30, UpdatedAt = 30\<rparr>],
          Total = 1, Page = 1, PerPage = 20, TotalPages = 1\<rparr>"
    by code_simp
next
  show "getTodos (noOptions\<lparr>o_search := Some ''a_c''\<rparr>) sample_db =
     Inr \<lparr>Data = [\<lparr>ID = 3, Title = ''abc'', Description = Some ''100% done'', Completed = True,
                   CreatedAt = 30, UpdatedAt = 30\<rparr>],
          Total = 1, Page = 1, PerPage = 20, TotalPages = 1\<rparr>"
    by code_simp
qed

theorem C9_search_wildcards_witness:
  "(case GetTodos (DefaultQueryParams\<lparr>qSearch := ''L_arn''\<rparr>) sample_db of
      Inl err \<Rightarrow> False
    | Inr res \<Rightarrow> \<lparr>ID = 2, Title = ''Learn Go Fiber'', Description = Some ''Build a REST API'',
                  Completed = True, CreatedAt = 20, UpdatedAt = 25\<rparr> \<in> set (Data res)) \<and>
   (case getTodos (noOptions\<lparr>o_search := Some ''B%API''\<rparr>) sample_db of
      Inl err \<Rightarrow> False
    | Inr res \<Rightarrow> \<lparr>ID = 2, Title = ''Learn Go Fiber'', Description = Some ''Build a REST API'',
                  Completed = True, CreatedAt = 20, UpdatedAt = 25\<rparr> \<in> set (Data res))"
  using C9_search_wildcards[where db = sample_db
      and r = "\<lparr>ID = 2, Title = ''Learn Go Fiber'', Description = Some ''Build a REST API'',
                  Completed = True, CreatedAt = 20, UpdatedAt = 25\<rparr>"
      and pre = "[]" and ?s1.0 = "''L''" and c = "CHR ''e''" and ?s2.0 = "''arn''" and post = "'' Go Fiber''"
      and w = "[]"]
    C9_search_wildcards[where db = sample_db
      and r = "\<lparr>ID = 2, Title = ''Learn Go Fiber'', Description = Some ''Build a REST API'',
                  Completed = True, CreatedAt = 20, UpdatedAt = 25\<rparr>"
      and pre = "[]" and ?s1.0 = "''B''" and c = "CHR ''e''" and ?s2.0 = "''API''" and post = "[]"
      and w = "''uild a REST ''"]
  by (simp add: sample_rows)

subsection \<open>C6: Create\<close>




subsection \<open>C8: a persisted description is never the empty string\<close>



subsection \<open>C5: Update with no field and with some fields\<close>




subsection \<open>C1: Stats\<close>

text \<open>C1: what the two services compute.  The Go service takes \<open>total\<close> from the count of
  all rows, but counts \<open>completed\<close> and \<open>pending\<close> over the rows of one List call: it asks
  for 1000 rows per page, List resets a page size above 100 to 20, and so
  \<open>completed + pending\<close> is the smaller of 20 and the number of rows.  The Node.js
  repository counts with three queries over the whole table, and there
  \<open>completed + pending = total\<close>.  With 21 todos in the store the Go service reports
  \<open>total = 21\<close> and \<open>completed + pending = 20\<close>.\<close>

theorem C1_stats_counts:
  "(case GetTodoStats db of
      Inl err \<Rightarrow> False
    | Inr st \<Rightarrow>
        total_todos st = int (length (rows db)) \<and>
        completed_todos st + pending_todos st = int (min 20 (length (rows db)))) \<and>
   completed_todos (getStats db) + pending_todos (getStats db) = total_todos (getStats db) \<and>
   total_todos (getStats db) = int (length (rows db))"
  using GetTodoStats_sum[of db] getStats_sum[of db] by simp

theorem C1_stats_counts_witness:
  "reachable_go (create_many 21 ''t'' False empty_db) \<and>
   GetTodoStats (create_many 21 ''t'' False empty_db) =
     Inr \<lparr>total_todos = 21, completed_todos = 0, pending_todos = 20\<rparr> \<and>
   getStats (create_many 21 ''t'' False empty_db) =
     \<lparr>total_todos = 21, completed_todos = 0, pending_todos = 21\<rparr>"
proof -
  let ?db = "create_many 21 ''t'' False empty_db"
  have ok: "TrimSpace ''t'' \<noteq> []" "length ''t'' \<le> 255"
    by (simp_all add: TrimSpace_t)
  have len: "length (rows ?db) = 21"
    using create_many_length[OF ok, of 21 False empty_db] by (simp add: empty_db_def)
  have allp: "list_all (\<lambda>r. Completed r = False) (rows ?db)"
    by (rule create_many_completed[OF ok]) (simp add: empty_db_def)
  then have np: "list_all (\<lambda>r. \<not> Completed r) (rows ?db)"
    by simp
  have r: "reachable_go ?db"
    by (rule create_many_reachable[OF ok go_init])
  have c0: "filter Completed (take 20 (order_by ColCreatedAt True (rows ?db))) = []"
    by (rule filter_none) (rule list_all_take_order_by[OF np])
  have p20: "filter (\<lambda>t. \<not> Completed t) (take 20 (order_by ColCreatedAt True (rows ?db))) =
      take 20 (order_by ColCreatedAt True (rows ?db))"
    by (rule filter_all) (rule list_all_take_order_by[OF np])
  have g: "GetTodoStats ?db = Inr \<lparr>total_todos = 21, completed_todos = 0, pending_todos = 20\<rparr>"
    by (simp add: GetTodoStats_eq c0 p20 len length_order_by)
  have n0: "filter Completed (rows ?db) = []"
    by (rule filter_none) (rule np)
  have n21: "filter (\<lambda>t. \<not> Completed t) (rows ?db) = rows ?db"
    by (rule filter_all) (rule np)
  have n: "getStats ?db = \<lparr>total_todos = 21, completed_todos = 0, pending_todos = 21\<rparr>"
    using n0 n21
    by (simp add: getStats_def sql_count_def eval_where_Nil eval_where_completed len)
  from C1_stats_counts[of ?db] show ?thesis
    by (simp add: r g n)
qed

subsection \<open>C7: the completed filter\<close>




end
